theory Spec2Isabelle
  imports Main "HOL-Library.Sublist"
begin

section \<open>The data-fetch layer of the NFT dashboard\<close>

text \<open>
  The module \<^verbatim>\<open>nft_dashboard_fixed.py\<close> has three fetch functions
  (\<^verbatim>\<open>get_collection_stats\<close>, \<^verbatim>\<open>get_recent_sales\<close>, \<^verbatim>\<open>get_collection_assets\<close>)
  and a rendering loop. Each fetch function is embedded as a function from its arguments
  and the outcome of its HTTP requests to the trace of its effects (requests sent,
  messages shown, sleeps) and either the value it returns or the exception that leaves it.
  The functions are embedded as they are written, without the \<^verbatim>\<open>st.cache_data\<close>
  decorator that wraps them.
\<close>

subsection \<open>Decoded JSON values\<close>

text \<open>
  A Python float read from JSON is a finite binary fraction \<open>m * 2^e\<close>, an infinity,
  or a NaN (\<^verbatim>\<open>json.loads\<close> accepts the literals Infinity and NaN).
\<close>

datatype pyfloat = Finite int int | PosInf | NegInf | NaN

text \<open>
  What \<^verbatim>\<open>response.json()\<close> yields. A dict is the list of its items; a key is looked up
  with \<open>map_of\<close>.
\<close>

datatype json =
    JNull
  | JBool bool
  | JInt int
  | JFloat pyfloat
  | JStr string
  | JArr "json list"
  | JObj "(string \<times> json) list"

subsection \<open>Exceptions, effects, computations\<close>

text \<open>
  The exception classes the handlers tell apart. \<open>RequestException r\<close> is any
  \<^verbatim>\<open>requests.exceptions.RequestException\<close> other than a timeout, \<open>r\<close> the status of
  its \<^verbatim>\<open>response\<close> attribute when it has one. The others are plain \<^verbatim>\<open>Exception\<close>s.
\<close>

datatype exn =
    Timeout
  | RequestException "nat option"
  | NameError string
  | TypeError
  | KeyError
  | AttributeError
  | ValueError

datatype param = PStr string | PInt int

datatype effect =
    HttpGet string "(string \<times> string) list" "(string \<times> param) list" nat
  | StError string
  | StWarning string
  | Sleep nat

type_synonym 'a comp = "effect list \<times> (exn + 'a)"

definition ret :: "'a \<Rightarrow> 'a comp" where
  "ret x = ([], Inr x)"

definition raise :: "exn \<Rightarrow> 'a comp" where
  "raise e = ([], Inl e)"

definition emit :: "effect \<Rightarrow> unit comp" where
  "emit e = ([e], Inr ())"

definition bind :: "'a comp \<Rightarrow> ('a \<Rightarrow> 'b comp) \<Rightarrow> 'b comp" where
  "bind m f =
     (case m of
        (es, Inl e) \<Rightarrow> (es, Inl e)
      | (es, Inr x) \<Rightarrow> (case f x of (es', r) \<Rightarrow> (es @ es', r)))"

text \<open>
  \<^verbatim>\<open>try: m  except ...: h\<close>. An exception raised by the handler itself leaves the
  statement: no sibling \<^verbatim>\<open>except\<close> clause sees it.
\<close>

definition try_except :: "'a comp \<Rightarrow> (exn \<Rightarrow> 'a comp) \<Rightarrow> 'a comp" where
  "try_except m h =
     (case m of
        (es, Inl e) \<Rightarrow> (case h e of (es', r) \<Rightarrow> (es @ es', r))
      | (es, Inr x) \<Rightarrow> (es, Inr x))"

definition lift :: "exn + 'a \<Rightarrow> 'a comp" where
  "lift r = ([], r)"

text \<open>What an observer sees of a run.\<close>

fun is_get :: "effect \<Rightarrow> bool" where
  "is_get (HttpGet url headers params timeout) = True"
| "is_get _ = False"

fun is_sleep :: "effect \<Rightarrow> bool" where
  "is_sleep (Sleep n) = True"
| "is_sleep _ = False"

definition effects :: "'a comp \<Rightarrow> effect list" where
  "effects c = fst c"

definition requests_made :: "'a comp \<Rightarrow> nat" where
  "requests_made c = length (filter is_get (fst c))"

definition sleeps :: "'a comp \<Rightarrow> effect list" where
  "sleeps c = filter is_sleep (fst c)"

definition result :: "'a comp \<Rightarrow> exn + 'a" where
  "result c = snd c"

subsection \<open>Python operations on decoded JSON\<close>

fun py_truthy :: "json \<Rightarrow> bool" where
  "py_truthy JNull = False"
| "py_truthy (JBool b) = b"
| "py_truthy (JInt i) = (i \<noteq> 0)"
| "py_truthy (JFloat (Finite m e)) = (m \<noteq> 0)"
| "py_truthy (JFloat _) = True"
| "py_truthy (JStr s) = (s \<noteq> [])"
| "py_truthy (JArr xs) = (xs \<noteq> [])"
| "py_truthy (JObj kvs) = (kvs \<noteq> [])"

text \<open>\<^verbatim>\<open>k in d\<close> for a string \<open>k\<close>: key of a dict, element of a list, substring of a string.\<close>

fun py_in :: "string \<Rightarrow> json \<Rightarrow> exn + bool" where
  "py_in k (JObj kvs) = Inr (k \<in> set (map fst kvs))"
| "py_in k (JArr xs) = Inr (JStr k \<in> set xs)"
| "py_in k (JStr s) = Inr (sublist k s)"
| "py_in k _ = Inl TypeError"

text \<open>\<^verbatim>\<open>d[k]\<close> for a string \<open>k\<close>.\<close>

fun py_getitem :: "json \<Rightarrow> string \<Rightarrow> exn + json" where
  "py_getitem (JObj kvs) k = (case map_of kvs k of None \<Rightarrow> Inl KeyError | Some v \<Rightarrow> Inr v)"
| "py_getitem _ k = Inl TypeError"

text \<open>\<^verbatim>\<open>d.get(k, default)\<close>: only a dict has the method.\<close>

fun py_get :: "json \<Rightarrow> string \<Rightarrow> json \<Rightarrow> exn + json" where
  "py_get (JObj kvs) k dflt = Inr (case map_of kvs k of None \<Rightarrow> dflt | Some v \<Rightarrow> v)"
| "py_get _ k dflt = Inl AttributeError"

subsection \<open>The HTTP library\<close>

datatype body = NotJson | Json json

text \<open>What one call of \<^verbatim>\<open>requests.get\<close> does: it times out, fails otherwise, or responds.\<close>

datatype http_outcome = TimesOut | Fails "nat option" | Responds nat body

type_synonym response = "nat \<times> body"

definition status_code :: "response \<Rightarrow> nat" where
  "status_code r = fst r"

definition requests_get ::
  "string \<Rightarrow> (string \<times> string) list \<Rightarrow> (string \<times> param) list \<Rightarrow> nat \<Rightarrow> http_outcome \<Rightarrow> response comp" where
  "requests_get url headers params timeout outcome =
     ([HttpGet url headers params timeout],
      case outcome of
        TimesOut \<Rightarrow> Inl Timeout
      | Fails r \<Rightarrow> Inl (RequestException r)
      | Responds s b \<Rightarrow> Inr (s, b))"

text \<open>\<^verbatim>\<open>Response.raise_for_status\<close> raises an HTTPError carrying the response for 4xx and 5xx.\<close>

definition raise_for_status :: "response \<Rightarrow> unit comp" where
  "raise_for_status r =
     (if 400 \<le> status_code r \<and> status_code r < 600
      then raise (RequestException (Some (status_code r))) else ret ())"

text \<open>
  \<^verbatim>\<open>Response.json\<close> raises the library's JSONDecodeError, a RequestException without a
  response, on a body that is not JSON.
\<close>

definition response_json :: "response \<Rightarrow> json comp" where
  "response_json r = (case snd r of NotJson \<Rightarrow> raise (RequestException None) | Json j \<Rightarrow> ret j)"

subsection \<open>Module globals\<close>

definition OPENSEA_API_KEY :: string where
  "OPENSEA_API_KEY = ''YOUR_OPENSEA_API_KEY''"

definition OPENSEA_API_BASE :: string where
  "OPENSEA_API_BASE = ''https://api.opensea.io/api/v2''"

text \<open>
  The names bound at module level when the fetch functions are called: the imports of
  lines 1 to 5 and 22, the two constants, the three functions, and the widgets read before
  the calls. No builtin is called \<^verbatim>\<open>time\<close>.
\<close>

definition module_globals :: "string list" where
  "module_globals =
     [''st'', ''requests'', ''pd'', ''datetime'', ''math'',
      ''OPENSEA_API_KEY'', ''OPENSEA_API_BASE'', ''os'',
      ''get_collection_stats'', ''get_recent_sales'', ''get_collection_assets'',
      ''api_key_input'', ''collection_slug'', ''tab1'', ''tab2'', ''tab3'']"

text \<open>
  \<^verbatim>\<open>time.sleep(secs)\<close> in a namespace \<open>globals\<close>: the name \<^verbatim>\<open>time\<close> is looked up first.
\<close>

definition time_sleep :: "string list \<Rightarrow> nat \<Rightarrow> unit comp" where
  "time_sleep globals secs =
     (if ''time'' \<in> set globals then emit (Sleep secs) else raise (NameError ''time''))"

definition headers_of :: "string \<Rightarrow> (string \<times> string) list" where
  "headers_of api_key =
     [(''X-API-KEY'', api_key), (''Accept'', ''application/json''),
      (''User-Agent'', ''NFT-Dashboard/1.0'')]"

subsection \<open>\<^verbatim>\<open>get_collection_assets\<close>\<close>

text \<open>What one pass through the body of the \<^verbatim>\<open>for\<close> loop ends in.\<close>

datatype 'a step = Return 'a | Continue

text \<open>The value returned: \<open>None\<close> is Python's None, \<open>Some (JArr [])\<close> the empty list.\<close>

definition assets_try ::
  "string list \<Rightarrow> string \<Rightarrow> string \<Rightarrow> int \<Rightarrow> nat \<Rightarrow> http_outcome \<Rightarrow> json option step comp" where
  "assets_try globals slug api_key limit attempt outcome =
     bind (requests_get (OPENSEA_API_BASE @ ''/assets/collection/'' @ slug) (headers_of api_key)
             [(''limit'', PInt limit), (''order_by'', PStr ''pk''), (''order_direction'', PStr ''desc'')]
             60 outcome)
       (\<lambda>response.
          if status_code response = 401 then
            bind (emit (StError ''Invalid API key for assets. Please check your OpenSea API key.''))
              (\<lambda>_. ret (Return None))
          else if status_code response = 404 then
            bind (emit (StWarning ''Collection not found for assets.''))
              (\<lambda>_. ret (Return (Some (JArr []))))
          else if status_code response = 429 then
            bind (emit (StWarning ''Rate limit exceeded for assets data. Retrying...''))
              (\<lambda>_. bind (time_sleep globals (2 ^ attempt)) (\<lambda>_. ret Continue))
          else
            bind (raise_for_status response) (\<lambda>_.
            bind (response_json response) (\<lambda>data.
            bind (lift (py_in ''nfts'' data)) (\<lambda>has.
              if has then
                bind (lift (py_getitem data ''nfts'')) (\<lambda>nfts.
                  if py_truthy nfts then
                    bind (lift (py_getitem data ''nfts'')) (\<lambda>v. ret (Return (Some v)))
                  else ret (Return (Some (JArr []))))
              else ret (Return (Some (JArr [])))))))"

fun assets_except :: "string list \<Rightarrow> nat \<Rightarrow> exn \<Rightarrow> json option step comp" where
  "assets_except globals attempt Timeout =
     bind (emit (StWarning ''Assets data request timed out. Retrying...''))
       (\<lambda>_. bind (time_sleep globals (2 ^ attempt)) (\<lambda>_. ret Continue))"
| "assets_except globals attempt (RequestException r) =
     (if r \<noteq> None \<and> the r \<ge> 500 then
        bind (emit (StWarning ''Server error. Retrying...''))
          (\<lambda>_. bind (time_sleep globals (2 ^ attempt)) (\<lambda>_. ret Continue))
      else
        bind (emit (StError ''Failed to fetch collection assets''))
          (\<lambda>_. ret (Return None)))"
| "assets_except globals attempt e =
     bind (emit (StError ''Error processing assets data''))
       (\<lambda>_. ret (Return None))"

definition max_retries :: nat where
  "max_retries = 3"

text \<open>
  The loop \<^verbatim>\<open>for attempt in range(max_retries)\<close> over the attempts still to make;
  \<open>env attempt\<close> is the outcome of the request of that attempt.
\<close>

fun assets_loop ::
  "string list \<Rightarrow> string \<Rightarrow> string \<Rightarrow> int \<Rightarrow> (nat \<Rightarrow> http_outcome) \<Rightarrow> nat list \<Rightarrow> json option comp" where
  "assets_loop globals slug api_key limit env [] =
     bind (emit (StError ''Failed to fetch assets after 3 attempts due to timeout or rate limit.''))
       (\<lambda>_. ret None)"
| "assets_loop globals slug api_key limit env (attempt # rest) =
     bind (try_except (assets_try globals slug api_key limit attempt (env attempt))
                      (assets_except globals attempt))
       (\<lambda>step. case step of
                  Return v \<Rightarrow> ret v
                | Continue \<Rightarrow> assets_loop globals slug api_key limit env rest)"

definition get_collection_assets_in ::
  "string list \<Rightarrow> string \<Rightarrow> string \<Rightarrow> int \<Rightarrow> (nat \<Rightarrow> http_outcome) \<Rightarrow> json option comp" where
  "get_collection_assets_in globals slug api_key limit env =
     (if api_key = ''YOUR_OPENSEA_API_KEY'' then ret None
      else assets_loop globals slug api_key limit env [0..<max_retries])"

text \<open>The function as the module runs it.\<close>

definition get_collection_assets ::
  "string \<Rightarrow> string \<Rightarrow> int \<Rightarrow> (nat \<Rightarrow> http_outcome) \<Rightarrow> json option comp" where
  "get_collection_assets = get_collection_assets_in module_globals"

subsection \<open>\<^verbatim>\<open>get_collection_stats\<close>\<close>

record 'f stats =
  floor_price :: 'f
  volume :: 'f
  sales :: int
  num_owners :: int

text \<open>
  The builtins \<^verbatim>\<open>float\<close> and \<^verbatim>\<open>int\<close> applied to a decoded JSON value are parameters
  \<open>py_float\<close> and \<open>py_int\<close> of the model, \<open>None\<close> where the builtin raises (a TypeError,
  a ValueError or an OverflowError, all of them plain \<^verbatim>\<open>Exception\<close>s).
\<close>

definition convert :: "(json \<Rightarrow> 'a option) \<Rightarrow> json \<Rightarrow> 'a comp" where
  "convert f j = (case f j of None \<Rightarrow> raise ValueError | Some v \<Rightarrow> ret v)"

text \<open>\<^verbatim>\<open>conv(data['total'].get(k, 0))\<close>\<close>

definition stats_field :: "json \<Rightarrow> string \<Rightarrow> (json \<Rightarrow> 'a option) \<Rightarrow> 'a comp" where
  "stats_field data k conv =
     bind (lift (py_getitem data ''total'')) (\<lambda>total.
     bind (lift (py_get total k (JInt 0))) (\<lambda>v. convert conv v))"

definition stats_try ::
  "(json \<Rightarrow> 'f option) \<Rightarrow> (json \<Rightarrow> int option) \<Rightarrow> string \<Rightarrow> string \<Rightarrow> http_outcome
     \<Rightarrow> 'f stats option comp" where
  "stats_try py_float py_int slug api_key outcome =
     bind (requests_get (OPENSEA_API_BASE @ ''/collections/'' @ slug @ ''/stats'')
             (headers_of api_key) [] 10 outcome)
       (\<lambda>response.
          if status_code response = 401 then
            bind (emit (StError ''Invalid API key. Please check your OpenSea API key.''))
              (\<lambda>_. ret None)
          else if status_code response = 404 then
            bind (emit (StError ''Collection not found. Please check the slug.''))
              (\<lambda>_. ret None)
          else if status_code response = 429 then
            bind (emit (StError ''Rate limit exceeded. Please wait a moment and try again.''))
              (\<lambda>_. ret None)
          else
            bind (raise_for_status response) (\<lambda>_.
            bind (response_json response) (\<lambda>data.
            bind (lift (py_in ''total'' data)) (\<lambda>has.
              if has then
                bind (stats_field data ''floor_price'' py_float) (\<lambda>fp.
                bind (stats_field data ''volume'' py_float) (\<lambda>vol.
                bind (stats_field data ''sales'' py_int) (\<lambda>s.
                bind (stats_field data ''num_owners'' py_int) (\<lambda>n.
                  ret (Some \<lparr>floor_price = fp, volume = vol, sales = s, num_owners = n\<rparr>)))))
              else
                bind (emit (StWarning ''No statistics data available for this collection.''))
                  (\<lambda>_. ret None)))))"

fun stats_except :: "exn \<Rightarrow> 'f stats option comp" where
  "stats_except Timeout =
     bind (emit (StError ''Request timed out. Please try again.'')) (\<lambda>_. ret None)"
| "stats_except (RequestException r) =
     bind (emit (StError ''API Error'')) (\<lambda>_. ret None)"
| "stats_except e =
     bind (emit (StError ''Unexpected error'')) (\<lambda>_. ret None)"

definition get_collection_stats ::
  "(json \<Rightarrow> 'f option) \<Rightarrow> (json \<Rightarrow> int option) \<Rightarrow> string \<Rightarrow> string \<Rightarrow> http_outcome
     \<Rightarrow> 'f stats option comp" where
  "get_collection_stats py_float py_int slug api_key outcome =
     (if api_key = ''YOUR_OPENSEA_API_KEY'' then
        bind (emit (StError ''Please set your OpenSea API key. Check the sidebar for instructions.''))
          (\<lambda>_. ret None)
      else try_except (stats_try py_float py_int slug api_key outcome) stats_except)"

subsection \<open>\<^verbatim>\<open>get_recent_sales\<close>\<close>

text \<open>
  Lines 136 to 175 build a pandas DataFrame from the event list, format each row with
  floating-point arithmetic and skip the rows that raise. They are the parameter
  \<open>build_frame\<close> of the model, \<open>None\<close> where an exception leaves them (a plain
  \<^verbatim>\<open>Exception\<close>, as the DataFrame constructor raises on a scalar); \<open>empty_frame\<close> is
  \<^verbatim>\<open>pd.DataFrame()\<close>.
\<close>

definition sales_try ::
  "(json \<Rightarrow> 'df option) \<Rightarrow> 'df \<Rightarrow> string \<Rightarrow> string \<Rightarrow> http_outcome \<Rightarrow> 'df option comp" where
  "sales_try build_frame empty_frame slug api_key outcome =
     bind (requests_get (OPENSEA_API_BASE @ ''/events/collection/'' @ slug) (headers_of api_key)
             [(''event_type'', PStr ''sale''), (''limit'', PInt 20)] 30 outcome)
       (\<lambda>response.
          if status_code response = 401 then ret None
          else if status_code response = 404 then ret None
          else if status_code response = 429 then
            bind (emit (StWarning ''Rate limit exceeded for sales data.'')) (\<lambda>_. ret None)
          else
            bind (raise_for_status response) (\<lambda>_.
            bind (response_json response) (\<lambda>data.
            bind (lift (py_in ''asset_events'' data)) (\<lambda>has.
              if has then
                bind (lift (py_getitem data ''asset_events'')) (\<lambda>events.
                  if py_truthy events then
                    bind (lift (py_getitem data ''asset_events'')) (\<lambda>evs.
                    bind (convert build_frame evs) (\<lambda>df. ret (Some df)))
                  else ret (Some empty_frame))
              else ret (Some empty_frame)))))"

fun sales_except :: "exn \<Rightarrow> 'df option comp" where
  "sales_except Timeout =
     bind (emit (StWarning ''Sales data request timed out.'')) (\<lambda>_. ret None)"
| "sales_except (RequestException r) =
     bind (emit (StWarning ''Failed to fetch recent sales'')) (\<lambda>_. ret None)"
| "sales_except e =
     bind (emit (StWarning ''Error processing sales data'')) (\<lambda>_. ret None)"

definition get_recent_sales ::
  "(json \<Rightarrow> 'df option) \<Rightarrow> 'df \<Rightarrow> string \<Rightarrow> string \<Rightarrow> http_outcome \<Rightarrow> 'df option comp" where
  "get_recent_sales build_frame empty_frame slug api_key outcome =
     (if api_key = ''YOUR_OPENSEA_API_KEY'' then ret None
      else try_except (sales_try build_frame empty_frame slug api_key outcome) sales_except)"

subsection \<open>The image URL shown for an asset (lines 396 to 402)\<close>

text \<open>
  \<^verbatim>\<open>s.replace(old, new)\<close>: every occurrence of \<open>old\<close>, found from the left without
  overlap, becomes \<open>new\<close>; an empty \<open>old\<close> matches before every character and at the end.
\<close>

function str_replace :: "string \<Rightarrow> string \<Rightarrow> string \<Rightarrow> string" where
  "str_replace old new s =
     (if old = [] then new @ concat (map (\<lambda>c. c # new) s)
      else if s = [] then []
      else if prefix old s then new @ str_replace old new (drop (length old) s)
      else hd s # str_replace old new (tl s))"
  by pat_completeness auto
termination
  by (relation "measure (\<lambda>(old, new, s). length s)") auto

declare str_replace.simps [simp del]

definition rewrite_ipfs :: "string \<Rightarrow> string" where
  "rewrite_ipfs image_url =
     (if prefix ''ipfs://'' image_url
      then ''https://ipfs.io/ipfs/'' @ str_replace ''ipfs://'' [] image_url
      else image_url)"

text \<open>
  The URL handed to \<^verbatim>\<open>st.image\<close> for one record of the list: \<open>None\<close> when the record
  has no image URL. Only a string has \<^verbatim>\<open>startswith\<close>.
\<close>

definition shown_image_url :: "json \<Rightarrow> exn + string option" where
  "shown_image_url nft =
     (case py_get nft ''image_url'' (JStr []) of
        Inl e \<Rightarrow> Inl e
      | Inr image_url \<Rightarrow>
          if py_truthy image_url then
            (case image_url of
               JStr s \<Rightarrow> Inr (Some (rewrite_ipfs s))
             | _ \<Rightarrow> Inl AttributeError)
          else Inr None)"

subsection \<open>Vocabulary of the statements\<close>

text \<open>A computation that sends no request.\<close>

definition quiet :: "'a comp \<Rightarrow> bool" where
  "quiet c = (filter is_get (fst c) = [])"

text \<open>
  The outcomes of a request that are failures of the fetch: a timeout, another failure of
  the request, a 4xx or 5xx status, a body that is not JSON.
\<close>

fun error_outcome :: "http_outcome \<Rightarrow> bool" where
  "error_outcome TimesOut = True"
| "error_outcome (Fails r) = True"
| "error_outcome (Responds s b) = ((400 \<le> s \<and> s < 600) \<or> b = NotJson)"


section \<open>Properties\<close>

subsection \<open>Reading a computation\<close>

lemmas comp_defs = bind_def ret_def raise_def emit_def lift_def try_except_def

lemma fst_try_except:
  "fst (try_except m h) = fst m @ (case snd m of Inl e \<Rightarrow> fst (h e) | Inr x \<Rightarrow> [])"
  by (auto simp: try_except_def split: prod.splits sum.splits)

lemma snd_try_except:
  "snd (try_except m h) = (case snd m of Inl e \<Rightarrow> snd (h e) | Inr x \<Rightarrow> Inr x)"
  by (auto simp: try_except_def split: prod.splits sum.splits)

lemma fst_bind:
  "fst (bind m f) = fst m @ (case snd m of Inl e \<Rightarrow> [] | Inr x \<Rightarrow> fst (f x))"
  by (auto simp: bind_def split: prod.splits sum.splits)

lemma snd_bind:
  "snd (bind m f) = (case snd m of Inl e \<Rightarrow> Inl e | Inr x \<Rightarrow> snd (f x))"
  by (auto simp: bind_def split: prod.splits sum.splits)

subsection \<open>The retry loop of \<^verbatim>\<open>get_collection_assets\<close>\<close>

text \<open>The module never binds \<^verbatim>\<open>time\<close>, so every \<^verbatim>\<open>time.sleep\<close> raises.\<close>

lemma time_sleep_module: "time_sleep module_globals n = raise (NameError ''time'')"
  by (simp add: time_sleep_def module_globals_def)

lemma attempts_range: "[0..<max_retries] = [0, 1, 2]"
  by (simp add: max_retries_def upt_rec)

lemma except_no_get: "filter is_get (fst (assets_except g a e)) = []"
  by (cases e) (auto simp: comp_defs time_sleep_def split: prod.splits sum.splits)

lemma except_no_sleep: "filter is_sleep (fst (assets_except module_globals a e)) = []"
  by (cases e) (auto simp: comp_defs time_sleep_module split: prod.splits sum.splits)

lemma except_no_continue: "snd (assets_except module_globals a e) \<noteq> Inr Continue"
  by (cases e) (auto simp: comp_defs time_sleep_module split: prod.splits sum.splits)

lemma try_one_get:
  "length (filter is_get (fst (assets_try g slug api_key limit a outcome))) = 1"
  by (auto simp: assets_try_def comp_defs requests_get_def time_sleep_def raise_for_status_def
        response_json_def split: prod.splits sum.splits body.splits http_outcome.splits)

lemma try_no_sleep:
  "filter is_sleep (fst (assets_try module_globals slug api_key limit a outcome)) = []"
  by (auto simp: assets_try_def comp_defs requests_get_def time_sleep_module raise_for_status_def
        response_json_def split: prod.splits sum.splits body.splits http_outcome.splits)

lemma try_no_continue:
  "snd (assets_try module_globals slug api_key limit a outcome) \<noteq> Inr Continue"
  by (auto simp: assets_try_def comp_defs requests_get_def time_sleep_module raise_for_status_def
        response_json_def split: prod.splits sum.splits body.splits http_outcome.splits)

lemma attempt_no_continue:
  "snd (try_except (assets_try module_globals slug api_key limit a outcome)
          (assets_except module_globals a)) \<noteq> Inr Continue"
  using try_no_continue [of slug api_key limit a outcome] except_no_continue [of a]
  by (auto simp: snd_try_except split: sum.splits)

text \<open>So the first pass through the loop body is the last: the rest of the loop is never run.\<close>

lemma loop_first_attempt:
  "assets_loop module_globals slug api_key limit env (a # rest) =
     bind (try_except (assets_try module_globals slug api_key limit a (env a))
             (assets_except module_globals a))
       (\<lambda>step. case step of Return v \<Rightarrow> ret v | Continue \<Rightarrow> raise TypeError)"
  using attempt_no_continue [of slug api_key limit a "env a"]
  by (auto simp: bind_def split: prod.splits sum.splits step.splits)

lemma loop_one_request:
  "length (filter is_get (fst (assets_loop module_globals slug api_key limit env (a # rest)))) = 1"
  unfolding loop_first_attempt
  by (simp add: fst_bind fst_try_except try_one_get except_no_get ret_def raise_def
        split: sum.splits step.splits)

lemma loop_no_sleep:
  "filter is_sleep (fst (assets_loop module_globals slug api_key limit env (a # rest))) = []"
  unfolding loop_first_attempt
  by (simp add: fst_bind fst_try_except try_no_sleep except_no_sleep ret_def raise_def
        split: sum.splits step.splits)





text \<open>
  Were \<^verbatim>\<open>time\<close> bound, the loop as written would retry: three requests on three 429
  responses, a sleep of \<open>2 ^ attempt\<close> seconds after each, then None.
\<close>

lemma assets_retry_when_time_bound:
  "requests_made (get_collection_assets_in (''time'' # module_globals) ''azuki'' ''k'' 20
      (\<lambda>attempt. Responds 429 NotJson)) = 3 \<and>
   sleeps (get_collection_assets_in (''time'' # module_globals) ''azuki'' ''k'' 20
      (\<lambda>attempt. Responds 429 NotJson)) = [Sleep 1, Sleep 2, Sleep 4] \<and>
   result (get_collection_assets_in (''time'' # module_globals) ''azuki'' ''k'' 20
      (\<lambda>attempt. Responds 429 NotJson)) = Inr None"
  by (simp add: get_collection_assets_in_def attempts_range assets_try_def comp_defs
      requests_get_def time_sleep_def status_code_def requests_made_def sleeps_def result_def)

text \<open>
  Claim C1 (retry with backoff): on a 429, a 5xx or a timeout the assets fetch makes up to
  three attempts, sleeping \<open>2 ^ attempt\<close> seconds between them. The loop is written to do
  so, but the module as it stands does not: with a first response 429 and a second one
  that would succeed, the function sends one request, sleeps never, and returns None.
\<close>

theorem assets_rate_limited_not_retried:
  "requests_made (get_collection_assets ''azuki'' ''k'' 20
       (\<lambda>attempt. if attempt = 0 then Responds 429 NotJson
                   else Responds 200 (Json (JObj [(''nfts'', JArr [JStr ''x''])])))) = 1 \<and>
   sleeps (get_collection_assets ''azuki'' ''k'' 20
       (\<lambda>attempt. if attempt = 0 then Responds 429 NotJson
                   else Responds 200 (Json (JObj [(''nfts'', JArr [JStr ''x''])])))) = [] \<and>
   result (get_collection_assets ''azuki'' ''k'' 20
       (\<lambda>attempt. if attempt = 0 then Responds 429 NotJson
                   else Responds 200 (Json (JObj [(''nfts'', JArr [JStr ''x''])])))) = Inr None"
  by (simp add: get_collection_assets_def get_collection_assets_in_def attempts_range
      assets_try_def comp_defs requests_get_def time_sleep_module status_code_def
      requests_made_def sleeps_def result_def)



subsection \<open>Requests sent by the three fetch functions\<close>

lemma quiet_ret: "quiet (ret x)"
  by (simp add: quiet_def ret_def)

lemma quiet_raise: "quiet (raise e)"
  by (simp add: quiet_def raise_def)

lemma quiet_lift: "quiet (lift r)"
  by (simp add: quiet_def lift_def)

lemma quiet_error: "quiet (emit (StError s))"
  by (simp add: quiet_def emit_def)

lemma quiet_warning: "quiet (emit (StWarning s))"
  by (simp add: quiet_def emit_def)

lemma quiet_bind: "quiet m \<Longrightarrow> (\<And>x. quiet (f x)) \<Longrightarrow> quiet (bind m f)"
  by (auto simp: quiet_def fst_bind split: sum.splits)

lemma quiet_convert: "quiet (convert f j)"
  by (simp add: convert_def quiet_ret quiet_raise split: option.splits)

lemma quiet_raise_for_status: "quiet (raise_for_status r)"
  by (simp add: raise_for_status_def quiet_ret quiet_raise)

lemma quiet_response_json: "quiet (response_json r)"
  by (simp add: response_json_def quiet_ret quiet_raise split: body.splits)

lemma quiet_stats_field: "quiet (stats_field data k conv)"
  unfolding stats_field_def by (intro quiet_bind quiet_lift quiet_convert)

lemmas quiet_intros = quiet_bind quiet_ret quiet_raise quiet_lift quiet_error quiet_warning
  quiet_convert quiet_raise_for_status quiet_response_json quiet_stats_field

lemma get_then_quiet:
  "(\<And>r. quiet (f r)) \<Longrightarrow>
   filter is_get (fst (bind (requests_get url hs ps t outcome) f)) = [HttpGet url hs ps t]"
  by (auto simp: fst_bind requests_get_def quiet_def split: sum.splits)

lemma stats_try_gets:
  "filter is_get (fst (stats_try pf pi slug api_key outcome)) =
     [HttpGet (OPENSEA_API_BASE @ ''/collections/'' @ slug @ ''/stats'') (headers_of api_key) [] 10]"
  unfolding stats_try_def
  by (rule get_then_quiet) (auto intro!: quiet_intros)

lemma stats_except_quiet: "quiet (stats_except e)"
  by (cases e) (auto intro!: quiet_intros)

lemma stats_except_none: "snd (stats_except e) = Inr None"
  by (cases e) (simp_all add: comp_defs)

lemma sales_try_gets:
  "filter is_get (fst (sales_try bf ef slug api_key outcome)) =
     [HttpGet (OPENSEA_API_BASE @ ''/events/collection/'' @ slug) (headers_of api_key)
        [(''event_type'', PStr ''sale''), (''limit'', PInt 20)] 30]"
  unfolding sales_try_def
  by (rule get_then_quiet) (auto intro!: quiet_intros)

lemma sales_except_quiet: "quiet (sales_except e)"
  by (cases e) (auto intro!: quiet_intros)

lemma sales_except_none: "snd (sales_except e) = Inr None"
  by (cases e) (simp_all add: comp_defs)

lemma stats_requests:
  "requests_made (get_collection_stats pf pi slug api_key outcome) =
     (if api_key = OPENSEA_API_KEY then 0 else 1)"
  using stats_except_quiet
  by (auto simp: get_collection_stats_def requests_made_def OPENSEA_API_KEY_def comp_defs
        fst_try_except stats_try_gets quiet_def simp del: try_except_def split: sum.splits)

lemma sales_requests:
  "requests_made (get_recent_sales bf ef slug api_key outcome) =
     (if api_key = OPENSEA_API_KEY then 0 else 1)"
  using sales_except_quiet
  by (auto simp: get_recent_sales_def requests_made_def OPENSEA_API_KEY_def ret_def
        fst_try_except sales_try_gets quiet_def split: sum.splits)

lemma assets_requests:
  "requests_made (get_collection_assets slug api_key limit env) =
     (if api_key = OPENSEA_API_KEY then 0 else 1)"
  by (simp add: get_collection_assets_def get_collection_assets_in_def requests_made_def
        OPENSEA_API_KEY_def ret_def attempts_range loop_one_request del: assets_loop.simps)

text \<open>
  Claim C3 (credential gate), as stated: an empty credential, like the placeholder, makes
  every fetch return without network I/O. It does not: the gate compares the key with the
  placeholder only, and with the empty key a request is sent.
\<close>

theorem empty_credential_sends_request:
  "requests_made (get_collection_assets ''azuki'' [] 20 (\<lambda>attempt. Responds 401 NotJson)) = 1"
  by (simp add: assets_requests OPENSEA_API_KEY_def)

text \<open>
  Claim C3, amended: with the placeholder as credential each of the three fetch functions
  returns None and sends no request; with any other credential, the empty one included,
  each of them sends a request (stats and sales exactly one).
\<close>

theorem credential_gate:
  "(api_key = OPENSEA_API_KEY \<longrightarrow>
      requests_made (get_collection_stats py_float py_int slug api_key outcome) = 0 \<and>
      result (get_collection_stats py_float py_int slug api_key outcome) = Inr None \<and>
      requests_made (get_recent_sales build_frame empty_frame slug api_key outcome) = 0 \<and>
      result (get_recent_sales build_frame empty_frame slug api_key outcome) = Inr None \<and>
      requests_made (get_collection_assets slug api_key limit env) = 0 \<and>
      result (get_collection_assets slug api_key limit env) = Inr None) \<and>
   (api_key \<noteq> OPENSEA_API_KEY \<longrightarrow>
      requests_made (get_collection_stats py_float py_int slug api_key outcome) = 1 \<and>
      requests_made (get_recent_sales build_frame empty_frame slug api_key outcome) = 1 \<and>
      0 < requests_made (get_collection_assets slug api_key limit env))"
  by (simp add: stats_requests sales_requests assets_requests)
    (simp add: OPENSEA_API_KEY_def get_collection_stats_def get_recent_sales_def
       get_collection_assets_def get_collection_assets_in_def result_def comp_defs)

theorem credential_gate_witness:
  "(OPENSEA_API_KEY = OPENSEA_API_KEY \<and>
      requests_made (get_collection_stats (\<lambda>j. None :: pyfloat option) (\<lambda>j. None) ''azuki''
         OPENSEA_API_KEY TimesOut) = 0 \<and>
      result (get_collection_assets ''azuki'' OPENSEA_API_KEY 20 (\<lambda>attempt. TimesOut)) = Inr None) \<and>
   ([] \<noteq> OPENSEA_API_KEY \<and>
      requests_made (get_recent_sales (\<lambda>j. None :: unit option) () ''azuki'' [] TimesOut) = 1)"
  using credential_gate [of OPENSEA_API_KEY "\<lambda>j. None :: pyfloat option" "\<lambda>j. None" "''azuki''"
      TimesOut "\<lambda>j. None :: unit option" "()" 20 "\<lambda>attempt. TimesOut"]
    credential_gate [of "[]" "\<lambda>j. None :: pyfloat option" "\<lambda>j. None" "''azuki''"
      TimesOut "\<lambda>j. None :: unit option" "()" 20 "\<lambda>attempt. TimesOut"]
  by (simp add: OPENSEA_API_KEY_def)

subsection \<open>How errors reach the caller\<close>



lemma stats_try_error:
  "error_outcome outcome \<Longrightarrow> snd (stats_try pf pi slug api_key outcome) \<noteq> Inr (Some v)"
  by (cases outcome)
    (auto simp: stats_try_def snd_bind requests_get_def status_code_def raise_for_status_def
       response_json_def ret_def raise_def emit_def split: sum.splits)

lemma sales_try_error:
  "error_outcome outcome \<Longrightarrow> snd (sales_try bf ef slug api_key outcome) \<noteq> Inr (Some v)"
  by (cases outcome)
    (auto simp: sales_try_def snd_bind requests_get_def status_code_def raise_for_status_def
       response_json_def ret_def raise_def emit_def split: sum.splits)

lemma stats_error_none:
  "error_outcome outcome \<Longrightarrow>
   result (get_collection_stats pf pi slug api_key outcome) = Inr None"
  using stats_try_error [of outcome pf pi slug api_key]
  by (cases "snd (stats_try pf pi slug api_key outcome)")
    (auto simp: get_collection_stats_def result_def snd_try_except stats_except_none snd_bind
       emit_def ret_def)

lemma sales_error_none:
  "error_outcome outcome \<Longrightarrow>
   result (get_recent_sales bf ef slug api_key outcome) = Inr None"
  using sales_try_error [of outcome bf ef slug api_key]
  by (cases "snd (sales_try bf ef slug api_key outcome)")
    (auto simp: get_recent_sales_def result_def snd_try_except sales_except_none ret_def)








text \<open>
  Claim C5 (missing totals), as stated: a successful stats response without the totals
  object gives a result distinct from every error result. The value returned is None,
  the very value returned on an error such as a 401.
\<close>

theorem stats_no_data_returns_none:
  "result (get_collection_stats (\<lambda>j. None :: pyfloat option) (\<lambda>j. None) ''azuki'' ''k''
      (Responds 200 (Json (JObj [])))) =
   result (get_collection_stats (\<lambda>j. None :: pyfloat option) (\<lambda>j. None) ''azuki'' ''k''
      (Responds 401 NotJson))"
  by (simp add: get_collection_stats_def stats_try_def comp_defs requests_get_def status_code_def
      raise_for_status_def response_json_def result_def)

text \<open>
  Claim C5, amended: on a 2xx stats response whose body is a JSON object without the key
  \<^verbatim>\<open>total\<close>, the stats fetch shows one warning and no error message, and returns None.
\<close>

theorem stats_missing_total:
  assumes "api_key \<noteq> OPENSEA_API_KEY" and "200 \<le> s" and "s < 300"
    and "''total'' \<notin> set (map fst kvs)"
  shows "effects (get_collection_stats py_float py_int slug api_key (Responds s (Json (JObj kvs)))) =
           [HttpGet (OPENSEA_API_BASE @ ''/collections/'' @ slug @ ''/stats'') (headers_of api_key) [] 10,
            StWarning ''No statistics data available for this collection.'']
         \<and> result (get_collection_stats py_float py_int slug api_key (Responds s (Json (JObj kvs)))) =
           Inr None"
  using assms
  by (simp add: get_collection_stats_def stats_try_def comp_defs requests_get_def status_code_def
      raise_for_status_def response_json_def result_def effects_def OPENSEA_API_KEY_def)

theorem stats_missing_total_witness:
  "''k'' \<noteq> OPENSEA_API_KEY \<and> (200::nat) \<le> 200 \<and> (200::nat) < 300 \<and>
   ''total'' \<notin> set (map fst [(''other'', JNull)]) \<and>
   effects (get_collection_stats (\<lambda>j. None :: pyfloat option) (\<lambda>j. None) ''azuki'' ''k''
       (Responds 200 (Json (JObj [(''other'', JNull)])))) =
     [HttpGet (OPENSEA_API_BASE @ ''/collections/'' @ ''azuki'' @ ''/stats'') (headers_of ''k'') [] 10,
      StWarning ''No statistics data available for this collection.''] \<and>
   result (get_collection_stats (\<lambda>j. None :: pyfloat option) (\<lambda>j. None) ''azuki'' ''k''
       (Responds 200 (Json (JObj [(''other'', JNull)])))) = Inr None"
  using stats_missing_total [of "''k''" 200 "[(''other'', JNull)]" "\<lambda>j. None :: pyfloat option"
      "\<lambda>j. None" "''azuki''"]
  by (simp add: OPENSEA_API_KEY_def)

text \<open>
  Claim C6 (401 and 404 are not retried), as stated: on a 401 or a 404 each fetch sends one
  request and fails with that outcome. The assets fetch does not fail on a 404: it returns
  the empty list, the value it returns for a collection without assets.
\<close>

theorem assets_not_found_is_empty_list:
  "result (get_collection_assets ''azuki'' ''k'' 20 (\<lambda>attempt. Responds 404 NotJson)) =
     Inr (Some (JArr [])) \<and>
   result (get_collection_assets ''azuki'' ''k'' 20
      (\<lambda>attempt. Responds 200 (Json (JObj [(''nfts'', JArr [])])))) = Inr (Some (JArr []))"
  by (simp add: get_collection_assets_def get_collection_assets_in_def result_def attempts_range
       assets_try_def comp_defs requests_get_def status_code_def raise_for_status_def
       response_json_def)

text \<open>
  Claim C6, amended: with a usable key and a response of status 401 or 404, each fetch
  sends exactly one request and returns at once, without sleeping: stats and sales return
  None, assets returns None on a 401 and the empty list on a 404.
\<close>

theorem unauthorized_not_found_single_request:
  assumes "api_key \<noteq> OPENSEA_API_KEY" and "s = 401 \<or> s = 404"
    and "env 0 = Responds s b"
  shows "requests_made (get_collection_stats py_float py_int slug api_key (Responds s b)) = 1 \<and>
         result (get_collection_stats py_float py_int slug api_key (Responds s b)) = Inr None \<and>
         requests_made (get_recent_sales build_frame empty_frame slug api_key (Responds s b)) = 1 \<and>
         result (get_recent_sales build_frame empty_frame slug api_key (Responds s b)) = Inr None \<and>
         requests_made (get_collection_assets slug api_key limit env) = 1 \<and>
         sleeps (get_collection_assets slug api_key limit env) = [] \<and>
         result (get_collection_assets slug api_key limit env) =
           Inr (if s = 401 then None else Some (JArr []))"
proof -
  have err: "error_outcome (Responds s b)"
    using assms by auto
  have assets: "result (get_collection_assets slug api_key limit env) =
      Inr (if s = 401 then None else Some (JArr []))"
    using assms
    by (auto simp: get_collection_assets_def get_collection_assets_in_def result_def
        attempts_range OPENSEA_API_KEY_def assets_try_def comp_defs requests_get_def
        status_code_def)
  have quiet: "sleeps (get_collection_assets slug api_key limit env) = []"
    using assms(1)
    by (simp add: sleeps_def get_collection_assets_def get_collection_assets_in_def
        OPENSEA_API_KEY_def attempts_range loop_no_sleep del: assets_loop.simps)
  have stats: "result (get_collection_stats py_float py_int slug api_key (Responds s b)) = Inr None"
    using err by (rule stats_error_none)
  have sales: "result (get_recent_sales build_frame empty_frame slug api_key (Responds s b)) = Inr None"
    using err by (rule sales_error_none)
  show ?thesis
    using assms(1) assets quiet stats sales
    by (simp add: stats_requests sales_requests assets_requests)
qed

theorem unauthorized_not_found_single_request_witness:
  "''k'' \<noteq> OPENSEA_API_KEY \<and> ((404::nat) = 401 \<or> (404::nat) = 404) \<and>
   requests_made (get_collection_stats (\<lambda>j. None :: pyfloat option) (\<lambda>j. None) ''azuki'' ''k''
       (Responds 404 NotJson)) = 1 \<and>
   requests_made (get_recent_sales (\<lambda>events. None :: unit option) () ''azuki'' ''k''
       (Responds 404 NotJson)) = 1 \<and>
   requests_made (get_collection_assets ''azuki'' ''k'' 20 (\<lambda>attempt. Responds 404 NotJson)) = 1 \<and>
   result (get_collection_assets ''azuki'' ''k'' 20 (\<lambda>attempt. Responds 404 NotJson)) =
     Inr (Some (JArr []))"
  using unauthorized_not_found_single_request [of "''k''" 404
      "\<lambda>attempt. Responds 404 NotJson" NotJson "\<lambda>j. None :: pyfloat option" "\<lambda>j. None" "''azuki''"
      "\<lambda>events. None :: unit option" "()" 20]
  by (simp add: OPENSEA_API_KEY_def)

subsection \<open>The assets listing and the image URLs\<close>

lemma str_replace_absent:
  "old \<noteq> [] \<Longrightarrow> \<not> sublist old s \<Longrightarrow> str_replace old new s = s"
proof (induction s)
  case Nil
  then show ?case by (simp add: str_replace.simps)
next
  case (Cons c s)
  from Cons.prems have np: "\<not> prefix old (c # s)" and ns: "\<not> sublist old s"
    by (auto simp: sublist_Cons_right)
  from Cons.IH [OF Cons.prems(1) ns] np Cons.prems(1) show ?case
    by (subst str_replace.simps) simp
qed

lemma str_replace_prefix:
  "old \<noteq> [] \<Longrightarrow> str_replace old new (old @ s) = new @ str_replace old new s"
  by (subst str_replace.simps) simp

lemma rewrite_ipfs_prefix:
  "\<not> sublist ''ipfs://'' h \<Longrightarrow> rewrite_ipfs (''ipfs://'' @ h) = ''https://ipfs.io/ipfs/'' @ h"
proof -
  assume a: "\<not> sublist ''ipfs://'' h"
  have "str_replace ''ipfs://'' [] (''ipfs://'' @ h) = [] @ str_replace ''ipfs://'' [] h"
    by (rule str_replace_prefix) simp
  also have "\<dots> = h"
    using a by (simp add: str_replace_absent)
  finally show ?thesis
    by (simp add: rewrite_ipfs_def)
qed

text \<open>A 2xx response with a JSON object: one request, and the listing or the empty list.\<close>

lemma assets_success:
  assumes "api_key \<noteq> OPENSEA_API_KEY" and "200 \<le> s" and "s < 300"
    and "env 0 = Responds s (Json (JObj kvs))"
  shows "get_collection_assets slug api_key limit env =
     ([HttpGet (OPENSEA_API_BASE @ ''/assets/collection/'' @ slug) (headers_of api_key)
         [(''limit'', PInt limit), (''order_by'', PStr ''pk''), (''order_direction'', PStr ''desc'')] 60],
      Inr (Some (case map_of kvs ''nfts'' of
                   None \<Rightarrow> JArr []
                 | Some v \<Rightarrow> if py_truthy v then v else JArr [])))"
proof (cases "map_of kvs ''nfts''")
  case None
  then have "''nfts'' \<notin> set (map fst kvs)"
    by (simp add: map_of_eq_None_iff)
  with assms None show ?thesis
    by (simp add: get_collection_assets_def get_collection_assets_in_def attempts_range
        OPENSEA_API_KEY_def assets_try_def comp_defs requests_get_def status_code_def
        raise_for_status_def response_json_def)
next
  case (Some v)
  then have "''nfts'' \<in> set (map fst kvs)"
    by (metis map_of_eq_None_iff option.distinct(1) set_map)
  with assms Some show ?thesis
    by (simp add: get_collection_assets_def get_collection_assets_in_def attempts_range
        OPENSEA_API_KEY_def assets_try_def comp_defs requests_get_def status_code_def
        raise_for_status_def response_json_def)
qed

text \<open>
  Claim C8 (ipfs rewriting), as stated: the assets client returns records whose
  \<^verbatim>\<open>ipfs://\<close> image URL is already rewritten, the hash being the rest of the URL
  after the prefix. The assets client returns the URL as it came; and the rewriting, done
  when the image is shown, removes every \<^verbatim>\<open>ipfs://\<close> of the URL, not the prefix only.
\<close>

theorem ipfs_url_returned_unchanged:
  "result (get_collection_assets ''azuki'' ''k'' 20
      (\<lambda>attempt. Responds 200
         (Json (JObj [(''nfts'', JArr [JObj [(''image_url'', JStr ''ipfs://abc123'')]])])))) =
     Inr (Some (JArr [JObj [(''image_url'', JStr ''ipfs://abc123'')]])) \<and>
   rewrite_ipfs ''ipfs://a/ipfs://b'' = ''https://ipfs.io/ipfs/a/b''"
proof -
  have "rewrite_ipfs ''ipfs://a/ipfs://b'' = ''https://ipfs.io/ipfs/a/b''"
    by (simp add: rewrite_ipfs_def str_replace.simps)
  moreover have "''k'' \<noteq> OPENSEA_API_KEY"
    by (simp add: OPENSEA_API_KEY_def)
  ultimately show ?thesis
    by (simp add: result_def
        assets_success [of "''k''" 200
          "\<lambda>attempt. Responds 200
             (Json (JObj [(''nfts'', JArr [JObj [(''image_url'', JStr ''ipfs://abc123'')]])]))"
          "[(''nfts'', JArr [JObj [(''image_url'', JStr ''ipfs://abc123'')]])]"])
qed

text \<open>
  Claim C8, amended: the assets client returns the listing of a 2xx response unchanged;
  for a record of it whose image URL is \<^verbatim>\<open>ipfs://\<close> followed by a hash in which
  \<^verbatim>\<open>ipfs://\<close> does not occur again, the URL shown by the rendering loop is
  \<^verbatim>\<open>https://ipfs.io/ipfs/\<close> followed by that hash.
\<close>

theorem ipfs_rewritten_when_shown:
  assumes "api_key \<noteq> OPENSEA_API_KEY" and "200 \<le> s" and "s < 300"
    and "env 0 = Responds s (Json (JObj kvs))"
    and "map_of kvs ''nfts'' = Some (JArr nfts)"
    and "JObj nft \<in> set nfts"
    and "map_of nft ''image_url'' = Some (JStr (''ipfs://'' @ h))"
    and "\<not> sublist ''ipfs://'' h"
  shows "result (get_collection_assets slug api_key limit env) = Inr (Some (JArr nfts)) \<and>
         shown_image_url (JObj nft) = Inr (Some (''https://ipfs.io/ipfs/'' @ h))"
proof -
  from assms(6) have "nfts \<noteq> []" by auto
  with assms(5) have "result (get_collection_assets slug api_key limit env) = Inr (Some (JArr nfts))"
    by (simp add: assets_success [of api_key s env kvs, OF assms(1-4)] result_def)
  moreover have "shown_image_url (JObj nft) = Inr (Some (''https://ipfs.io/ipfs/'' @ h))"
    using assms(7) rewrite_ipfs_prefix [OF assms(8)]
    by (simp add: shown_image_url_def)
  ultimately show ?thesis by simp
qed

theorem ipfs_rewritten_when_shown_witness:
  "''k'' \<noteq> OPENSEA_API_KEY \<and> (200::nat) \<le> 200 \<and> (200::nat) < 300 \<and>
   \<not> sublist ''ipfs://'' ''abc123'' \<and>
   result (get_collection_assets ''azuki'' ''k'' 20
      (\<lambda>attempt. Responds 200
         (Json (JObj [(''nfts'', JArr [JObj [(''image_url'', JStr ''ipfs://abc123'')]])])))) =
     Inr (Some (JArr [JObj [(''image_url'', JStr ''ipfs://abc123'')]])) \<and>
   shown_image_url (JObj [(''image_url'', JStr ''ipfs://abc123'')]) =
     Inr (Some ''https://ipfs.io/ipfs/abc123'')"
proof -
  have k: "''k'' \<noteq> OPENSEA_API_KEY"
    by (simp add: OPENSEA_API_KEY_def)
  have ns: "\<not> sublist ''ipfs://'' ''abc123''"
    by (simp add: sublist_code)
  show ?thesis
    using k ns
      ipfs_rewritten_when_shown [of "''k''" 200
        "\<lambda>attempt. Responds 200
           (Json (JObj [(''nfts'', JArr [JObj [(''image_url'', JStr ''ipfs://abc123'')]])]))"
        "[(''nfts'', JArr [JObj [(''image_url'', JStr ''ipfs://abc123'')]])]"
        "[JObj [(''image_url'', JStr ''ipfs://abc123'')]]"
        "[(''image_url'', JStr ''ipfs://abc123'')]" "''abc123''" "''azuki''" 20]
    by simp
qed



end
